theory Spec2Isabelle
  imports Complex_Main "HOL-Library.AList"
begin

section \<open>Python values used by the two services\<close>

subsection \<open>\<open>str\<close> on integers\<close>

text \<open>
  Both services build identifiers with \<^verbatim>\<open>str(n)\<close> on a Python \<^verbatim>\<open>int\<close>:
  the decimal digits, most significant first, with a leading minus sign for a
  negative number.
\<close>

definition digit_char :: "nat \<Rightarrow> char" where
  "digit_char d = ''0123456789'' ! d"

function str_nat :: "nat \<Rightarrow> string" where
  "str_nat n =
     (if n < 10 then [digit_char n] else str_nat (n div 10) @ [digit_char (n mod 10)])"
  by pat_completeness auto
termination
  by (relation "measure (\<lambda>n. n)") auto

declare str_nat.simps [simp del]

definition str :: "int \<Rightarrow> string" where
  "str i = (if i < 0 then ''-'' @ str_nat (nat (- i)) else str_nat (nat i))"

text \<open>Reading a digit string back, used only to show that \<open>str\<close> is injective.\<close>

definition digits_value :: "string \<Rightarrow> nat" where
  "digits_value cs = foldl (\<lambda>a c. 10 * a + (of_char c - 48)) 0 cs"

subsection \<open>Floating-point arithmetic\<close>

text \<open>
  Prices and totals are Python \<^verbatim>\<open>float\<close>s. Their arithmetic is not fixed here:
  the operations the services apply to floats are the fields of a record that every
  definition below takes as a parameter, so that whatever is proved holds for any
  arithmetic, binary64 included.
  \<^item> \<open>flit m e\<close> is the float written as the decimal literal \<open>m \<times> 10\<^sup>-\<^sup>e\<close>
    (\<^verbatim>\<open>999.99\<close> is \<open>flit 99999 2\<close>, \<^verbatim>\<open>0.0\<close> is \<open>flit 0 1\<close>);
  \<^item> \<open>fadd\<close> is \<^verbatim>\<open>+\<close> on two floats;
  \<^item> \<open>fmul\<close> is \<^verbatim>\<open>*\<close> of a float by an \<^verbatim>\<open>int\<close>: Python converts the \<^verbatim>\<open>int\<close> to a
    float first and raises \<^verbatim>\<open>OverflowError\<close> when it is too large for one, which is
    the result \<open>None\<close>;
  \<^item> \<open>round2\<close> is \<^verbatim>\<open>round(x, 2)\<close>.
  Adding two floats and rounding a float never raise.
\<close>

record 'f float_ops =
  flit :: "int \<Rightarrow> nat \<Rightarrow> 'f"
  fadd :: "'f \<Rightarrow> 'f \<Rightarrow> 'f"
  fmul :: "'f \<Rightarrow> int \<Rightarrow> 'f option"
  round2 :: "'f \<Rightarrow> 'f"

definition fzero :: "'f float_ops \<Rightarrow> 'f" where
  "fzero ops = flit ops 0 1"

text \<open>
  Exact decimal arithmetic on the rationals, with \<open>round2\<close> rounding half to even at
  the second decimal. It is the instance at which concrete runs are evaluated. An
  \<^verbatim>\<open>int\<close> converts to a binary64 float when its magnitude is below
  \<open>2\<^sup>1\<^sup>0\<^sup>2\<^sup>4 - 2\<^sup>9\<^sup>7\<^sup>0\<close>, the least that rounds out of range.
\<close>

definition int_fits_float :: "int \<Rightarrow> bool" where
  "int_fits_float q \<longleftrightarrow> \<bar>q\<bar> < 2 ^ 1024 - 2 ^ 970"

definition round_half_even :: "rat \<Rightarrow> int" where
  "round_half_even y =
     (let f = \<lfloor>y\<rfloor>; d = y - of_int f
      in if d < 1 / 2 then f else if 1 / 2 < d then f + 1 else if even f then f else f + 1)"

definition exact_ops :: "rat float_ops" where
  "exact_ops =
     \<lparr> flit = (\<lambda>m e. of_int m / 10 ^ e),
       fadd = (\<lambda>a b. a + b),
       fmul = (\<lambda>p q. if int_fits_float q then Some (p * of_int q) else None),
       round2 = (\<lambda>x. of_int (round_half_even (x * 100)) / 100) \<rparr>"

subsection \<open>HTTP failures\<close>

text \<open>
  \<open>HTTPException status_code detail\<close> is FastAPI's exception; \<open>Unhandled\<close> stands
  for any other exception that escapes a handler and is answered 500: a
  \<^verbatim>\<open>KeyError\<close> on a response body without a price, or the \<^verbatim>\<open>OverflowError\<close> of a
  quantity too large for a float.
\<close>

datatype error = HTTPException nat string | Unhandled

section \<open>Product Service\<close>

text \<open>
  \<^verbatim>\<open>Product\<close> and \<^verbatim>\<open>ProductCreate\<close> share field names in the source; the fields of
  the create variant carry the suffix \<open>_c\<close> here, and \<^verbatim>\<open>id\<close> is \<open>id_p\<close>.
\<close>

record 'f Product =
  id_p :: string
  name :: string
  price :: 'f
  category :: string

record 'f ProductCreate =
  name_c :: string
  price_c :: 'f
  category_c :: string

text \<open>
  \<^verbatim>\<open>products_db\<close> is a dict; a dict keeps its keys in insertion order, assigning to
  an existing key replaces the value where it stands, and \<^verbatim>\<open>values()\<close> lists in
  that order: an association list with \<open>AList.update\<close>.
\<close>

type_synonym 'f products = "(string \<times> 'f Product) list"

definition products_db :: "'f float_ops \<Rightarrow> 'f products" where
  "products_db ops =
     [ (''1'', \<lparr> id_p = ''1'', name = ''Laptop'', price = flit ops 99999 2,
                category = ''Electronics'' \<rparr>),
       (''2'', \<lparr> id_p = ''2'', name = ''Mouse'', price = flit ops 2999 2,
                category = ''Electronics'' \<rparr>),
       (''3'', \<lparr> id_p = ''3'', name = ''Keyboard'', price = flit ops 7999 2,
                category = ''Electronics'' \<rparr>) ]"

text \<open>\<^verbatim>\<open>if category:\<close> is Python truthiness: \<^verbatim>\<open>None\<close> and the empty string both skip the filter.\<close>

definition get_products :: "'f products \<Rightarrow> string option \<Rightarrow> 'f Product list" where
  "get_products db category_q =
     (let products = map snd db
      in case category_q of
           None \<Rightarrow> products
         | Some c \<Rightarrow> if c \<noteq> [] then filter (\<lambda>p. category p = c) products else products)"

definition get_product :: "'f products \<Rightarrow> string \<Rightarrow> error + 'f Product" where
  "get_product db product_id_q =
     (case map_of db product_id_q of
        None \<Rightarrow> Inl (HTTPException 404 ''Product not found'')
      | Some p \<Rightarrow> Inr p)"

definition create_product :: "'f products \<Rightarrow> 'f ProductCreate \<Rightarrow> 'f products \<times> 'f Product" where
  "create_product db product =
     (let product_id_n = str (int (length db) + 1);
          new_product = \<lparr> id_p = product_id_n, name = name_c product,
                          price = price_c product, category = category_c product \<rparr>
      in (AList.update product_id_n new_product db, new_product))"

definition update_product ::
  "'f products \<Rightarrow> string \<Rightarrow> 'f ProductCreate \<Rightarrow> 'f products \<times> (error + 'f Product)" where
  "update_product db product_id_q product =
     (case map_of db product_id_q of
        None \<Rightarrow> (db, Inl (HTTPException 404 ''Product not found''))
      | Some _ \<Rightarrow>
          (let updated_product = \<lparr> id_p = product_id_q, name = name_c product,
                                   price = price_c product, category = category_c product \<rparr>
           in (AList.update product_id_q updated_product db, Inr updated_product)))"

definition delete_product :: "'f products \<Rightarrow> string \<Rightarrow> 'f products \<times> (error + string)" where
  "delete_product db product_id_q =
     (case map_of db product_id_q of
        None \<Rightarrow> (db, Inl (HTTPException 404 ''Product not found''))
      | Some _ \<Rightarrow> (AList.delete product_id_q db, Inr ''Product deleted successfully''))"

section \<open>Order Service\<close>

subsection \<open>Data\<close>

text \<open>
  \<^verbatim>\<open>Order\<close> and \<^verbatim>\<open>OrderCreate\<close> share \<^verbatim>\<open>customer_id\<close> and \<^verbatim>\<open>items\<close>; the fields
  of the create variant carry the suffix \<open>_c\<close>. \<^verbatim>\<open>id\<close> and \<^verbatim>\<open>total\<close> are names of
  the library, so they are \<open>id_o\<close> and \<open>total_o\<close> (and the local \<^verbatim>\<open>total\<close> is \<open>total'\<close>).
\<close>

record OrderItem =
  product_id :: string
  quantity :: int

record 'f Order =
  id_o :: string
  customer_id :: string
  items :: "OrderItem list"
  total_o :: 'f
  status :: string
  created_at :: string

record OrderCreate =
  customer_id_c :: string
  items_c :: "OrderItem list"

text \<open>The two globals of the module: \<^verbatim>\<open>orders_db = {}\<close> and \<^verbatim>\<open>order_counter = 1\<close>.\<close>

record 'f order_state =
  orders_db :: "(string \<times> 'f Order) list"
  order_counter :: int

definition initial_state :: "'f order_state" where
  "initial_state = \<lparr> orders_db = [], order_counter = 1 \<rparr>"

subsection \<open>The remote lookup\<close>

text \<open>
  What \<^verbatim>\<open>await client.get(...)\<close> gives back: a response, of which the handler
  reads the status code and, when the code is 200, \<^verbatim>\<open>response.json()["price"]\<close>
  (\<open>None\<close> when the body has no such number), or an \<^verbatim>\<open>httpx.RequestError\<close>
  with its text \<^verbatim>\<open>str(e)\<close>. The price is a float: the Product Service declares
  \<^verbatim>\<open>price: float\<close> and writes it with a fraction or an exponent, which
  \<^verbatim>\<open>response.json()\<close> reads back as a float. The client is a function of the number of the
  request within the call (from 0) and of the product identifier in the URL, so
  that two lookups of one product may be answered differently.
\<close>

datatype 'f get_result = Response nat "'f option" | RequestError string

type_synonym 'f client = "nat \<Rightarrow> string \<Rightarrow> 'f get_result"

text \<open>
  The client when the Product Service holding catalog \<open>db\<close> answers every request:
  status 200 with the product's price, or the status of the exception raised.
\<close>

definition catalog_client :: "'f products \<Rightarrow> 'f client" where
  "catalog_client db k pid =
     (case get_product db pid of
        Inr p \<Rightarrow> Response 200 (Some (price p))
      | Inl (HTTPException sc d) \<Rightarrow> Response sc None
      | Inl Unhandled \<Rightarrow> Response 500 None)"

subsection \<open>Order creation\<close>

text \<open>
  The loop of \<^verbatim>\<open>create_order\<close> over \<^verbatim>\<open>order.items\<close>, with the running total and
  the number of the next request. Each \<^verbatim>\<open>raise\<close> ends the loop with \<open>Inl\<close>, and so
  do the two exceptions that line 72 can raise: no price in the body, and a quantity
  that does not convert to a float.
\<close>

fun price_items ::
  "'f float_ops \<Rightarrow> 'f client \<Rightarrow> nat \<Rightarrow> 'f \<Rightarrow> OrderItem list \<Rightarrow> error + 'f" where
  "price_items ops client k total' [] = Inr total'"
| "price_items ops client k total' (item # rest) =
     (case client k (product_id item) of
        RequestError e \<Rightarrow> Inl (HTTPException 503 (''Product Service unavailable: '' @ e))
      | Response status_code body \<Rightarrow>
          if status_code = 200 then
            (case body of
               None \<Rightarrow> Inl Unhandled
             | Some p \<Rightarrow>
                 (case fmul ops p (quantity item) of
                    None \<Rightarrow> Inl Unhandled
                  | Some amount \<Rightarrow>
                      price_items ops client (Suc k) (fadd ops total' amount) rest))
          else if status_code = 404 then
            Inl (HTTPException 404 (''Product '' @ product_id item @ '' not found''))
          else
            Inl (HTTPException status_code (''Error fetching product '' @ product_id item)))"

text \<open>
  \<open>utcnow\<close> is the text of \<^verbatim>\<open>datetime.utcnow().isoformat()\<close> at the call. The
  handler returns the state it leaves behind together with its outcome.
\<close>

definition create_order ::
  "'f float_ops \<Rightarrow> 'f client \<Rightarrow> string \<Rightarrow> 'f order_state \<Rightarrow> OrderCreate
     \<Rightarrow> 'f order_state \<times> (error + 'f Order)" where
  "create_order ops client utcnow s order =
     (case price_items ops client 0 (fzero ops) (items_c order) of
        Inl e \<Rightarrow> (s, Inl e)
      | Inr total' \<Rightarrow>
          (let order_id = str (order_counter s);
               new_order = \<lparr> id_o = order_id, customer_id = customer_id_c order,
                             items = items_c order, total_o = round2 ops total',
                             status = ''pending'', created_at = utcnow \<rparr>
           in (s\<lparr> orders_db := AList.update order_id new_order (orders_db s),
                  order_counter := order_counter s + 1 \<rparr>,
               Inr new_order)))"

subsection \<open>Reading and updating orders\<close>

definition get_order :: "'f order_state \<Rightarrow> string \<Rightarrow> error + 'f Order" where
  "get_order s order_id =
     (case map_of (orders_db s) order_id of
        None \<Rightarrow> Inl (HTTPException 404 ''Order not found'')
      | Some ord \<Rightarrow> Inr ord)"

definition get_orders :: "'f order_state \<Rightarrow> string option \<Rightarrow> 'f Order list" where
  "get_orders s customer_id_q =
     (let orders = map snd (orders_db s)
      in case customer_id_q of
           None \<Rightarrow> orders
         | Some c \<Rightarrow> if c \<noteq> [] then filter (\<lambda>ord. customer_id ord = c) orders else orders)"

definition valid_statuses :: "string list" where
  "valid_statuses = [''pending'', ''confirmed'', ''shipped'', ''delivered'', ''canceled'']"

text \<open>\<^verbatim>\<open>repr\<close> of a list of plain strings, as the f-string of the 400 detail prints it.\<close>

fun join_comma :: "string list \<Rightarrow> string" where
  "join_comma [] = []"
| "join_comma [x] = x"
| "join_comma (x # y # ys) = x @ '', '' @ join_comma (y # ys)"

definition repr_list :: "string list \<Rightarrow> string" where
  "repr_list xs = ''['' @ join_comma (map (\<lambda>x. [CHR 0x27] @ x @ [CHR 0x27]) xs) @ '']''"

definition update_order_status ::
  "'f order_state \<Rightarrow> string \<Rightarrow> string \<Rightarrow> 'f order_state \<times> (error + string)" where
  "update_order_status s order_id new_status =
     (case map_of (orders_db s) order_id of
        None \<Rightarrow> (s, Inl (HTTPException 404 ''Order not found''))
      | Some ord \<Rightarrow>
          if new_status \<notin> set valid_statuses then
            (s, Inl (HTTPException 400
                       (''Invalid status. Must be one of '' @ repr_list valid_statuses)))
          else
            (s\<lparr> orders_db := AList.update order_id (ord\<lparr> status := new_status \<rparr>) (orders_db s) \<rparr>,
             Inr (''Order '' @ order_id @ '' status updated to '' @ new_status)))"

subsection \<open>Sequences of requests\<close>

text \<open>
  A request to the Order Service, with what the environment supplies to its
  handler: the client's answers and the clock for an order creation.

  The handlers are coroutines. \<^verbatim>\<open>create_order\<close> suspends only in its lookups, which
  come before it reads or writes a global, and the other handlers never suspend; so
  as far as the globals go each handler runs at once, and a run of the service is a
  list of requests handled one after the other.
\<close>

datatype 'f request =
    CreateOrder OrderCreate "'f client" string
  | GetOrder string
  | GetOrders "string option"
  | UpdateOrderStatus string string
  | HealthCheck

datatype 'f reply =
    Failed error
  | Created "'f Order"
  | OneOrder "'f Order"
  | Orders "'f Order list"
  | Message string
  | Healthy

definition handle ::
  "'f float_ops \<Rightarrow> 'f order_state \<Rightarrow> 'f request \<Rightarrow> 'f order_state \<times> 'f reply" where
  "handle ops s r =
     (case r of
        CreateOrder order client utcnow \<Rightarrow>
          (case create_order ops client utcnow s order of
             (s', Inl e) \<Rightarrow> (s', Failed e)
           | (s', Inr ord) \<Rightarrow> (s', Created ord))
      | GetOrder order_id \<Rightarrow>
          (case get_order s order_id of
             Inl e \<Rightarrow> (s, Failed e)
           | Inr ord \<Rightarrow> (s, OneOrder ord))
      | GetOrders customer_id_q \<Rightarrow> (s, Orders (get_orders s customer_id_q))
      | UpdateOrderStatus order_id new_status \<Rightarrow>
          (case update_order_status s order_id new_status of
             (s', Inl e) \<Rightarrow> (s', Failed e)
           | (s', Inr m) \<Rightarrow> (s', Message m))
      | HealthCheck \<Rightarrow> (s, Healthy))"

text \<open>Serving a list of requests one after the other: the final state and the replies.\<close>

fun serve ::
  "'f float_ops \<Rightarrow> 'f order_state \<Rightarrow> 'f request list \<Rightarrow> 'f order_state \<times> 'f reply list" where
  "serve ops s [] = (s, [])"
| "serve ops s (r # rs) =
     (case handle ops s r of
        (s', a) \<Rightarrow> (case serve ops s' rs of (s'', as) \<Rightarrow> (s'', a # as)))"

text \<open>The identifiers of the orders created, in the order of the replies.\<close>

fun created_ids :: "'f reply list \<Rightarrow> string list" where
  "created_ids [] = []"
| "created_ids (Created ord # as) = id_o ord # created_ids as"
| "created_ids (_ # as) = created_ids as"

section \<open>What the specification speaks of\<close>

text \<open>
  The specification's \<open>round(\<Sigma> price\<^sub>i \<times> quantity\<^sub>i, 2)\<close>: the amounts of the lines,
  one per item, added from \<^verbatim>\<open>0.0\<close> in the order of the items, then rounded. The
  amount of a line is \<open>None\<close> when its quantity does not convert to a float.
\<close>

definition line_amounts :: "'f float_ops \<Rightarrow> 'f list \<Rightarrow> OrderItem list \<Rightarrow> 'f option list" where
  "line_amounts ops prices its = map2 (\<lambda>p it. fmul ops p (quantity it)) prices its"

definition float_sum :: "'f float_ops \<Rightarrow> 'f list \<Rightarrow> 'f" where
  "float_sum ops xs = foldl (fadd ops) (fzero ops) xs"

definition spec_total :: "'f float_ops \<Rightarrow> 'f list \<Rightarrow> 'f" where
  "spec_total ops amounts = round2 ops (float_sum ops amounts)"

text \<open>
  Request \<open>k\<close>, the lookup of \<open>item\<close>, is answered 200 with a price and the amount of
  the line is a float: the loop goes on to the next item.
\<close>

definition priced :: "'f float_ops \<Rightarrow> 'f client \<Rightarrow> nat \<Rightarrow> OrderItem \<Rightarrow> bool" where
  "priced ops client k item =
     (case client k (product_id item) of
        Response status_code (Some p) \<Rightarrow>
          status_code = 200 \<and> fmul ops p (quantity item) \<noteq> None
      | _ \<Rightarrow> False)"

text \<open>
  The records that match a filter by exact string equality, in the order of the
  store.
\<close>

definition with_category :: "'f products \<Rightarrow> string \<Rightarrow> 'f Product list" where
  "with_category db c = filter (\<lambda>p. category p = c) (map snd db)"

definition of_customer :: "'f order_state \<Rightarrow> string \<Rightarrow> 'f Order list" where
  "of_customer s c = filter (\<lambda>ord. customer_id ord = c) (map snd (orders_db s))"

text \<open>
  Non-negativity of a float is a predicate \<open>nonneg\<close> beside the arithmetic; the
  arithmetic respects it when \<^verbatim>\<open>0.0\<close> is non-negative and sums, products by a
  non-negative \<^verbatim>\<open>int\<close> and roundings of non-negative floats are non-negative.
\<close>

definition sign_laws :: "'f float_ops \<Rightarrow> ('f \<Rightarrow> bool) \<Rightarrow> bool" where
  "sign_laws ops nonneg \<longleftrightarrow>
     nonneg (fzero ops) \<and>
     (\<forall>a b. nonneg a \<and> nonneg b \<longrightarrow> nonneg (fadd ops a b)) \<and>
     (\<forall>p q a. nonneg p \<and> 0 \<le> q \<and> fmul ops p q = Some a \<longrightarrow> nonneg a) \<and>
     (\<forall>a. nonneg a \<longrightarrow> nonneg (round2 ops a))"

text \<open>
  Every price the client reports with status 200 to the requests of one call, from
  request number \<open>k\<close> on, is non-negative.
\<close>

fun prices_nonneg :: "('f \<Rightarrow> bool) \<Rightarrow> 'f client \<Rightarrow> nat \<Rightarrow> OrderItem list \<Rightarrow> bool" where
  "prices_nonneg nonneg client k [] = True"
| "prices_nonneg nonneg client k (item # rest) =
     ((case client k (product_id item) of
         Response status_code (Some p) \<Rightarrow> status_code \<noteq> 200 \<or> nonneg p
       | _ \<Rightarrow> True)
      \<and> prices_nonneg nonneg client (Suc k) rest)"

text \<open>A request that supplies only non-negative quantities and is answered only non-negative prices.\<close>

fun nonneg_request :: "('f \<Rightarrow> bool) \<Rightarrow> 'f request \<Rightarrow> bool" where
  "nonneg_request nonneg (CreateOrder order client utcnow) =
     (list_all (\<lambda>it. 0 \<le> quantity it) (items_c order)
      \<and> prices_nonneg nonneg client 0 (items_c order))"
| "nonneg_request nonneg _ = True"

text \<open>The totals of the stored orders, in the order of the store.\<close>

definition stored_totals :: "'f order_state \<Rightarrow> 'f list" where
  "stored_totals s = map (\<lambda>kv. total_o (snd kv)) (orders_db s)"

text \<open>
  The states the service can be in: the counter is at least 1 and every key of the
  store is \<open>str\<close> of a number from 1 up to, not including, the counter.
\<close>

definition keys_below_counter :: "'f order_state \<Rightarrow> bool" where
  "keys_below_counter s \<longleftrightarrow>
     1 \<le> order_counter s \<and>
     (\<forall>k \<in> fst ` set (orders_db s). \<exists>n. 1 \<le> n \<and> n < order_counter s \<and> k = str n)"

section \<open>Concrete runs\<close>

text \<open>
  A client whose first request times out and whose later requests reach the Product
  Service with its initial catalog.
\<close>

definition timeout_then_catalog :: "rat client" where
  "timeout_then_catalog k pid =
     (if k = 0 then RequestError ''timed out''
      else catalog_client (products_db exact_ops) k pid)"

text \<open>
  A client whose second request times out and whose other requests reach the Product
  Service with its initial catalog.
\<close>

definition catalog_then_timeout :: "rat client" where
  "catalog_then_timeout k pid =
     (if k = 1 then RequestError ''timed out''
      else catalog_client (products_db exact_ops) k pid)"

text \<open>A client whose every request is answered with status 500.\<close>

definition failing_upstream :: "rat client" where
  "failing_upstream k pid = Response 500 None"

definition two_lines :: OrderCreate where
  "two_lines =
     \<lparr> customer_id_c = ''alice'',
       items_c = [\<lparr> product_id = ''1'', quantity = 2 \<rparr>, \<lparr> product_id = ''2'', quantity = 3 \<rparr>] \<rparr>"

definition known_then_unknown :: OrderCreate where
  "known_then_unknown =
     \<lparr> customer_id_c = ''alice'',
       items_c = [\<lparr> product_id = ''1'', quantity = 1 \<rparr>, \<lparr> product_id = ''999'', quantity = 1 \<rparr>] \<rparr>"

text \<open>An order whose first quantity, \<open>10\<^sup>4\<^sup>0\<^sup>0\<close>, is too large for a float.\<close>

definition huge_then_unknown :: OrderCreate where
  "huge_then_unknown =
     \<lparr> customer_id_c = ''alice'',
       items_c = [\<lparr> product_id = ''1'', quantity = 10 ^ 400 \<rparr>,
                  \<lparr> product_id = ''999'', quantity = 1 \<rparr>] \<rparr>"

definition negative_quantity :: OrderCreate where
  "negative_quantity =
     \<lparr> customer_id_c = ''alice'', items_c = [\<lparr> product_id = ''2'', quantity = - 1 \<rparr>] \<rparr>"

definition no_lines :: OrderCreate where
  "no_lines = \<lparr> customer_id_c = ''alice'', items_c = [] \<rparr>"

text \<open>The state after \<open>two_lines\<close> has been ordered from the initial catalog.\<close>

definition first_order :: "rat Order" where
  "first_order =
     \<lparr> id_o = ''1'', customer_id = ''alice'', items = items_c two_lines,
       total_o = 208995 / 100, status = ''pending'', created_at = ''2024-01-01T00:00:00'' \<rparr>"

text \<open>The example of the specification: a catalog that holds one product, created first.\<close>

definition widget :: "rat ProductCreate" where
  "widget = \<lparr> name_c = ''Widget'', price_c = 999 / 100, category_c = ''Misc'' \<rparr>"

definition widget_catalog :: "rat products" where
  "widget_catalog = fst (create_product [] widget)"

definition three_widgets :: OrderCreate where
  "three_widgets =
     \<lparr> customer_id_c = ''alice'', items_c = [\<lparr> product_id = ''1'', quantity = 3 \<rparr>] \<rparr>"

definition unknown_product :: OrderCreate where
  "unknown_product =
     \<lparr> customer_id_c = ''alice'', items_c = [\<lparr> product_id = ''999'', quantity = 1 \<rparr>] \<rparr>"

definition first_time :: "rat request" where
  "first_time =
     CreateOrder two_lines (catalog_client (products_db exact_ops)) ''2024-01-01T00:00:00''"

definition negative_time :: "rat request" where
  "negative_time =
     CreateOrder negative_quantity (catalog_client (products_db exact_ops))
       ''2024-01-01T00:00:00''"

definition nonneg_rat :: "rat \<Rightarrow> bool" where
  "nonneg_rat x \<longleftrightarrow> 0 \<le> x"

definition second_time :: "rat request" where
  "second_time =
     CreateOrder two_lines (catalog_client (products_db exact_ops)) ''2024-01-02T00:00:00''"

definition one_order_state :: "rat order_state" where
  "one_order_state = \<lparr> orders_db = [(''1'', first_order)], order_counter = 2 \<rparr>"

section \<open>\<open>str\<close> is injective on the non-negative integers\<close>

lemma of_char_digit_char: "d < 10 \<Longrightarrow> of_char (digit_char d) = (48 + d :: nat)"
proof -
  assume "d < 10"
  then have "d \<in> {0, 1, 2, 3, 4, 5, 6, 7, 8, 9}" by auto
  then show ?thesis by (auto simp: digit_char_def)
qed

lemma digits_value_snoc:
  "digits_value (cs @ [c]) = 10 * digits_value cs + (of_char c - 48)"
  by (simp add: digits_value_def)

lemma digits_value_str_nat: "digits_value (str_nat n) = n"
proof (induction n rule: str_nat.induct)
  case (1 n)
  show ?case
  proof (cases "n < 10")
    case True
    then show ?thesis
      by (simp add: str_nat.simps [of n] digits_value_def of_char_digit_char)
  next
    case False
    with 1 have "digits_value (str_nat (n div 10)) = n div 10" by simp
    with False show ?thesis
      by (simp add: str_nat.simps [of n] digits_value_snoc of_char_digit_char)
  qed
qed

lemma str_nat_inject: "str_nat m = str_nat n \<Longrightarrow> m = n"
  by (metis digits_value_str_nat)

lemma str_inject: "0 \<le> a \<Longrightarrow> 0 \<le> b \<Longrightarrow> str a = str b \<Longrightarrow> a = b"
  by (auto simp: str_def dest: str_nat_inject)

section \<open>The pricing loop\<close>

lemma pricedE:
  assumes "priced ops client k item"
  obtains p a where "client k (product_id item) = Response 200 (Some p)"
    and "fmul ops p (quantity item) = Some a"
  using assms
  by (auto simp: priced_def split: get_result.splits option.splits)

lemma pricedI:
  "client k (product_id item) = Response 200 (Some p) \<Longrightarrow>
   fmul ops p (quantity item) = Some a \<Longrightarrow> priced ops client k item"
  by (simp add: priced_def)

lemma price_items_priced:
  "priced ops client k item \<Longrightarrow>
   \<exists>a. price_items ops client k t (item # rest) =
         price_items ops client (Suc k) (fadd ops t a) rest"
  by (erule pricedE) auto

text \<open>A list of amounts either has them all, or lacks one.\<close>

lemma amounts_cases: "(\<exists>ys. xs = map Some ys) \<or> None \<in> set xs"
proof (induction xs)
  case Nil
  then show ?case by simp
next
  case (Cons x xs)
  show ?case
  proof (cases x)
    case None
    then show ?thesis by simp
  next
    case (Some a)
    from Cons.IH show ?thesis
    proof
      assume "\<exists>ys. xs = map Some ys"
      then obtain ys where "xs = map Some ys" by blast
      with Some have "x # xs = map Some (a # ys)" by simp
      then have "\<exists>ys. x # xs = map Some ys" by (rule exI)
      then show ?thesis by (rule disjI1)
    next
      assume "None \<in> set xs"
      then show ?thesis by simp
    qed
  qed
qed

text \<open>
  When every lookup succeeds the loop returns the amounts added from the left, if
  every line has an amount, and ends with the unhandled exception otherwise.
\<close>

lemma price_items_all_found:
  "length prices = length its \<Longrightarrow>
   \<forall>i<length its. client (k + i) (product_id (its ! i)) = Response 200 (Some (prices ! i)) \<Longrightarrow>
   map2 (\<lambda>p it. fmul ops p (quantity it)) prices its = map Some amounts \<Longrightarrow>
   price_items ops client k t its = Inr (foldl (fadd ops) t amounts)"
proof (induction its arbitrary: k t prices amounts)
  case Nil
  then show ?case by simp
next
  case (Cons it its)
  from Cons.prems(1) obtain p ps where prices: "prices = p # ps" by (cases prices) auto
  from Cons.prems(3) prices obtain a as where amounts: "amounts = a # as"
    and a: "fmul ops p (quantity it) = Some a"
    and as: "map2 (\<lambda>p it. fmul ops p (quantity it)) ps its = map Some as"
    by (cases amounts) auto
  from Cons.prems(2) have h0: "client k (product_id it) = Response 200 (Some p)"
    using prices by force
  have hs: "\<forall>i<length its. client (Suc k + i) (product_id (its ! i)) = Response 200 (Some (ps ! i))"
  proof (intro allI impI)
    fix i assume "i < length its"
    then have "Suc i < length (it # its)" by simp
    with Cons.prems(2) have "client (k + Suc i) (product_id ((it # its) ! Suc i)) =
        Response 200 (Some (prices ! Suc i))"
      by blast
    then show "client (Suc k + i) (product_id (its ! i)) = Response 200 (Some (ps ! i))"
      using prices by simp
  qed
  from Cons.prems(1) prices have len: "length ps = length its" by simp
  from Cons.IH [OF len hs as, of "fadd ops t a"] h0 a amounts
  show ?case by simp
qed

lemma price_items_overflow:
  "length prices = length its \<Longrightarrow>
   \<forall>i<length its. client (k + i) (product_id (its ! i)) = Response 200 (Some (prices ! i)) \<Longrightarrow>
   None \<in> set (map2 (\<lambda>p it. fmul ops p (quantity it)) prices its) \<Longrightarrow>
   price_items ops client k t its = Inl Unhandled"
proof (induction its arbitrary: k t prices)
  case Nil
  then show ?case by simp
next
  case (Cons it its)
  from Cons.prems(1) obtain p ps where prices: "prices = p # ps" by (cases prices) auto
  from Cons.prems(2) have h0: "client k (product_id it) = Response 200 (Some p)"
    using prices by force
  show ?case
  proof (cases "fmul ops p (quantity it)")
    case None
    with h0 show ?thesis by simp
  next
    case (Some a)
    with Cons.prems(3) prices
    have rest: "None \<in> set (map2 (\<lambda>p it. fmul ops p (quantity it)) ps its)"
      by auto
    have hs: "\<forall>i<length its. client (Suc k + i) (product_id (its ! i)) =
        Response 200 (Some (ps ! i))"
    proof (intro allI impI)
      fix i assume "i < length its"
      then have "Suc i < length (it # its)" by simp
      with Cons.prems(2) have "client (k + Suc i) (product_id ((it # its) ! Suc i)) =
          Response 200 (Some (prices ! Suc i))"
        by blast
      then show "client (Suc k + i) (product_id (its ! i)) = Response 200 (Some (ps ! i))"
        using prices by simp
    qed
    from Cons.prems(1) prices have len: "length ps = length its" by simp
    from Cons.IH [OF len hs rest, of "fadd ops t a"] h0 Some
    show ?thesis by simp
  qed
qed

text \<open>Items that are priced are passed over; only the running total keeps track of them.\<close>

lemma price_items_found_prefix:
  "\<forall>i<length pre. priced ops client (k + i) (pre ! i) \<Longrightarrow>
   \<exists>t'. price_items ops client k t (pre @ rest) = price_items ops client (k + length pre) t' rest"
proof (induction pre arbitrary: k t)
  case Nil
  then show ?case by auto
next
  case (Cons it pre)
  from Cons.prems have "priced ops client k it" by force
  from price_items_priced [OF this, of t "pre @ rest"]
  obtain a where step: "price_items ops client k t (it # pre @ rest) =
      price_items ops client (Suc k) (fadd ops t a) (pre @ rest)"
    by blast
  have hs: "\<forall>i<length pre. priced ops client (Suc k + i) (pre ! i)"
  proof (intro allI impI)
    fix i assume "i < length pre"
    then have "Suc i < length (it # pre)" by simp
    with Cons.prems have "priced ops client (k + Suc i) ((it # pre) ! Suc i)"
      by blast
    then show "priced ops client (Suc k + i) (pre ! i)" by simp
  qed
  from Cons.IH [OF hs, of "fadd ops t a"] step
  show ?case by simp
qed

text \<open>The loop returns a total only when every item has been priced.\<close>

lemma price_items_Inr_found:
  "price_items ops client k t its = Inr t' \<Longrightarrow> i < length its \<Longrightarrow>
   priced ops client (k + i) (its ! i)"
proof (induction its arbitrary: k t i)
  case Nil
  then show ?case by simp
next
  case (Cons it its)
  from Cons.prems(1) obtain p a where
    h0: "client k (product_id it) = Response 200 (Some p)" and
    a: "fmul ops p (quantity it) = Some a" and
    rest: "price_items ops client (Suc k) (fadd ops t a) its = Inr t'"
    by (auto split: get_result.splits if_splits option.splits)
  show ?case
  proof (cases i)
    case 0
    with pricedI [of client k it p ops a, OF h0 a] show ?thesis by simp
  next
    case (Suc j)
    with Cons.prems(2) have "j < length its" by simp
    from Cons.IH [OF rest this] Suc show ?thesis by simp
  qed
qed

section \<open>Order creation\<close>

text \<open>The two ways out of \<open>create_order\<close>, by the outcome of the loop.\<close>

lemma create_order_Inl:
  "price_items ops client 0 (fzero ops) (items_c order) = Inl e \<Longrightarrow>
   create_order ops client utcnow s order = (s, Inl e)"
  by (simp add: create_order_def)

lemma create_order_Inr:
  "price_items ops client 0 (fzero ops) (items_c order) = Inr t \<Longrightarrow>
   create_order ops client utcnow s order =
     (s\<lparr> orders_db :=
          AList.update (str (order_counter s))
            \<lparr> id_o = str (order_counter s), customer_id = customer_id_c order,
              items = items_c order, total_o = round2 ops t,
              status = ''pending'', created_at = utcnow \<rparr> (orders_db s),
        order_counter := order_counter s + 1 \<rparr>,
      Inr \<lparr> id_o = str (order_counter s), customer_id = customer_id_c order,
            items = items_c order, total_o = round2 ops t,
            status = ''pending'', created_at = utcnow \<rparr>)"
  by (simp add: create_order_def Let_def)

text \<open>
  Claim C1. When every lookup of an order creation succeeds, the total of the order
  created is the sum over the items of the price reported for the item times its
  quantity, rounded to 2 decimals. The sum is \<open>float_sum\<close>: the amounts are added
  from \<^verbatim>\<open>0.0\<close> in the order of the items. The order is created, and stored, exactly
  when every line has an amount; when a quantity does not convert to a float the call
  ends with the unhandled exception and creates nothing.
\<close>

theorem create_order_total:
  assumes "length prices = length (items_c order)"
    and "\<forall>i<length (items_c order).
           client i (product_id (items_c order ! i)) = Response 200 (Some (prices ! i))"
  shows "(line_amounts ops prices (items_c order) = map Some amounts \<longrightarrow>
            (\<exists>ord. create_order ops client utcnow s order =
               (s\<lparr> orders_db := AList.update (str (order_counter s)) ord (orders_db s),
                   order_counter := order_counter s + 1 \<rparr>, Inr ord)
             \<and> total_o ord = spec_total ops amounts
             \<and> items ord = items_c order))
       \<and> (\<forall>s' ord. create_order ops client utcnow s order = (s', Inr ord) \<longrightarrow>
            (\<exists>amounts'. line_amounts ops prices (items_c order) = map Some amounts'
               \<and> total_o ord = spec_total ops amounts'))
       \<and> (None \<in> set (line_amounts ops prices (items_c order)) \<longrightarrow>
            create_order ops client utcnow s order = (s, Inl Unhandled))"
proof -
  from assms(2) have found: "\<forall>i<length (items_c order).
      client (0 + i) (product_id (items_c order ! i)) = Response 200 (Some (prices ! i))"
    by simp
  have all: "\<exists>ord. create_order ops client utcnow s order =
        (s\<lparr> orders_db := AList.update (str (order_counter s)) ord (orders_db s),
            order_counter := order_counter s + 1 \<rparr>, Inr ord)
      \<and> total_o ord = spec_total ops as \<and> items ord = items_c order"
    if "line_amounts ops prices (items_c order) = map Some as" for as
  proof -
    from that have "map2 (\<lambda>p it. fmul ops p (quantity it)) prices (items_c order) = map Some as"
      by (simp add: line_amounts_def)
    from price_items_all_found
      [where client = client and k = 0 and ops = ops and t = "fzero ops",
        OF assms(1) found this]
    have "price_items ops client 0 (fzero ops) (items_c order) = Inr (float_sum ops as)"
      by (simp add: float_sum_def)
    from create_order_Inr [OF this] show ?thesis
      by (simp add: spec_total_def)
  qed
  have overflow: "create_order ops client utcnow s order = (s, Inl Unhandled)"
    if "None \<in> set (line_amounts ops prices (items_c order))"
  proof -
    from that
    have "None \<in> set (map2 (\<lambda>p it. fmul ops p (quantity it)) prices (items_c order))"
      by (simp add: line_amounts_def)
    from price_items_overflow
      [where client = client and k = 0 and ops = ops and t = "fzero ops",
        OF assms(1) found this]
    show ?thesis by (rule create_order_Inl)
  qed
  have created: "\<exists>amounts'. line_amounts ops prices (items_c order) = map Some amounts'
      \<and> total_o ord = spec_total ops amounts'"
    if "create_order ops client utcnow s order = (s', Inr ord)" for s' ord
  proof -
    from amounts_cases [of "line_amounts ops prices (items_c order)"]
    show ?thesis
    proof
      assume "\<exists>ys. line_amounts ops prices (items_c order) = map Some ys"
      then obtain ys where ys: "line_amounts ops prices (items_c order) = map Some ys"
        by blast
      from all [OF ys] that have "total_o ord = spec_total ops ys" by auto
      with ys show ?thesis by blast
    next
      assume "None \<in> set (line_amounts ops prices (items_c order))"
      from overflow [OF this] that show ?thesis by simp
    qed
  qed
  from all [of amounts] overflow created show ?thesis by blast
qed

lemma catalog_client_1: "catalog_client (products_db exact_ops) k ''1'' = Response 200 (Some (99999 / 100))"
  by (simp add: catalog_client_def get_product_def products_db_def exact_ops_def)

lemma catalog_client_2: "catalog_client (products_db exact_ops) k ''2'' = Response 200 (Some (2999 / 100))"
  by (simp add: catalog_client_def get_product_def products_db_def exact_ops_def)

lemma catalog_client_999: "catalog_client (products_db exact_ops) k ''999'' = Response 404 None"
  by (simp add: catalog_client_def get_product_def products_db_def exact_ops_def)

lemma str_1: "str 1 = ''1''"
  by (simp add: str_def str_nat.simps digit_char_def)

text \<open>The exact arithmetic, and the quantities that do and do not convert.\<close>

lemma small_fits: "\<bar>q\<bar> \<le> 1000 \<Longrightarrow> int_fits_float q"
proof -
  have "(1000 :: int) < 2 ^ 1024 - 2 ^ 970" by simp
  then show "\<bar>q\<bar> \<le> 1000 \<Longrightarrow> int_fits_float q"
    unfolding int_fits_float_def by linarith
qed

lemma exact_ops_simps:
  "flit exact_ops m e = of_int m / 10 ^ e"
  "fadd exact_ops a b = a + b"
  "fmul exact_ops p q = (if int_fits_float q then Some (p * of_int q) else None)"
  "round2 exact_ops x = of_int (round_half_even (x * 100)) / 100"
  "fzero exact_ops = 0"
  by (simp_all add: exact_ops_def fzero_def)

lemma fmul_exact_small: "\<bar>q\<bar> \<le> 1000 \<Longrightarrow> fmul exact_ops p q = Some (p * of_int q)"
  by (simp add: exact_ops_simps small_fits)

lemma two_lines_amounts:
  "line_amounts exact_ops [99999 / 100, 2999 / 100] (items_c two_lines) =
     map Some [199998 / 100, 8997 / 100]"
  by (simp add: line_amounts_def two_lines_def fmul_exact_small)

theorem create_order_total_witness:
  "\<exists>ord. create_order exact_ops (catalog_client (products_db exact_ops)) ''2024-01-01T00:00:00''
            initial_state two_lines =
          (\<lparr> orders_db = [(''1'', ord)], order_counter = 2 \<rparr>, Inr ord)
        \<and> total_o ord = 208995 / 100"
proof -
  have len: "length [99999 / 100, 2999 / 100 :: rat] = length (items_c two_lines)"
    by (simp add: two_lines_def)
  have found: "\<forall>i<length (items_c two_lines).
      catalog_client (products_db exact_ops) i (product_id (items_c two_lines ! i)) =
        Response 200 (Some ([99999 / 100, 2999 / 100] ! i))"
    by (simp add: two_lines_def less_Suc_eq catalog_client_1 catalog_client_2)
  from create_order_total
    [where prices = "[99999 / 100, 2999 / 100]" and order = two_lines
       and client = "catalog_client (products_db exact_ops)" and ops = exact_ops
       and utcnow = "''2024-01-01T00:00:00''" and s = initial_state
       and amounts = "[199998 / 100, 8997 / 100]",
      OF len found, THEN conjunct1, rule_format, OF two_lines_amounts]
  show ?thesis
    by (auto simp add: initial_state_def str_1 spec_total_def float_sum_def exact_ops_simps
        round_half_even_def)
qed

lemma priced_iff:
  "priced ops client k item \<longleftrightarrow>
     (\<exists>p a. client k (product_id item) = Response 200 (Some p)
        \<and> fmul ops p (quantity item) = Some a)"
  by (auto simp: priced_def split: get_result.splits option.splits)

text \<open>A lookup answered 404 makes the loop fail, whatever the other lookups give.\<close>

lemma price_items_not_found_fails:
  "j < length its \<Longrightarrow> client (k + j) (product_id (its ! j)) = Response 404 body \<Longrightarrow>
   \<exists>e. price_items ops client k t its = Inl e"
proof (cases "price_items ops client k t its")
  case (Inl e)
  then show ?thesis by blast
next
  case (Inr t')
  assume "j < length its" and nf: "client (k + j) (product_id (its ! j)) = Response 404 body"
  from price_items_Inr_found [OF Inr this(1)] nf show ?thesis
    by (auto elim: pricedE)
qed

lemma price_items_first_failure:
  assumes "j < length its"
    and "\<forall>i<j. priced ops client i (its ! i)"
  shows "\<exists>t'. price_items ops client 0 t its = price_items ops client j t' (drop j its)"
proof -
  have split: "its = take j its @ drop j its" by simp
  have len: "length (take j its) = j" using assms(1) by simp
  have "\<forall>i<length (take j its). priced ops client (0 + i) (take j its ! i)"
    using assms(2) len by simp
  from price_items_found_prefix [OF this, of t "drop j its"] len
  show ?thesis by simp
qed

lemma drop_nth_Cons: "j < length its \<Longrightarrow> drop j its = its ! j # drop (Suc j) its"
  by (simp add: Cons_nth_drop_Suc)

text \<open>
  Claim C2, amended. When the lookup of some item is answered "not found", the call
  fails and leaves the state as it was; when moreover every item before that one is
  priced (its lookup succeeds and its quantity converts to a float), the failure is
  the 404 that names the item's product, which is then the not-found item of lowest
  index.
\<close>

theorem create_order_not_found:
  assumes "j < length (items_c order)"
    and "client j (product_id (items_c order ! j)) = Response 404 body"
  shows "fst (create_order ops client utcnow s order) = s
       \<and> (\<exists>e. snd (create_order ops client utcnow s order) = Inl e)
       \<and> ((\<forall>i<j. \<exists>p a. client i (product_id (items_c order ! i)) = Response 200 (Some p)
                      \<and> fmul ops p (quantity (items_c order ! i)) = Some a) \<longrightarrow>
            create_order ops client utcnow s order =
              (s, Inl (HTTPException 404
                        (''Product '' @ product_id (items_c order ! j) @ '' not found''))))"
proof -
  from assms(2) have "client (0 + j) (product_id (items_c order ! j)) = Response 404 body"
    by simp
  from price_items_not_found_fails
    [where client = client and k = 0 and j = j and ops = ops and t = "fzero ops",
      OF assms(1) this]
  obtain e where "price_items ops client 0 (fzero ops) (items_c order) = Inl e"
    by blast
  from create_order_Inl [OF this]
  have fails: "create_order ops client utcnow s order = (s, Inl e)" .
  have first: "create_order ops client utcnow s order =
      (s, Inl (HTTPException 404 (''Product '' @ product_id (items_c order ! j) @ '' not found'')))"
    if "\<forall>i<j. \<exists>p a. client i (product_id (items_c order ! i)) = Response 200 (Some p)
          \<and> fmul ops p (quantity (items_c order ! i)) = Some a"
  proof -
    from that have "\<forall>i<j. priced ops client i (items_c order ! i)"
      by (simp add: priced_iff)
    from price_items_first_failure
      [where client = client and j = j and ops = ops and t = "fzero ops", OF assms(1) this]
    obtain t' where "price_items ops client 0 (fzero ops) (items_c order) =
        price_items ops client j t' (drop j (items_c order))"
      by blast
    then have "price_items ops client 0 (fzero ops) (items_c order) =
        Inl (HTTPException 404 (''Product '' @ product_id (items_c order ! j) @ '' not found''))"
      using assms by (simp add: drop_nth_Cons)
    from create_order_Inl [OF this] show ?thesis .
  qed
  from fails first show ?thesis by simp
qed

theorem create_order_not_found_witness:
  "create_order exact_ops (catalog_client (products_db exact_ops)) ''2024-01-01T00:00:00''
     initial_state known_then_unknown =
   (initial_state, Inl (HTTPException 404 ''Product 999 not found''))"
proof -
  have j: "1 < length (items_c known_then_unknown)"
    by (simp add: known_then_unknown_def)
  have nf: "catalog_client (products_db exact_ops) 1 (product_id (items_c known_then_unknown ! 1)) =
      Response 404 None"
    by (simp add: known_then_unknown_def catalog_client_999)
  have before: "\<forall>i<1. \<exists>p a. catalog_client (products_db exact_ops) i
      (product_id (items_c known_then_unknown ! i)) = Response 200 (Some p)
      \<and> fmul exact_ops p (quantity (items_c known_then_unknown ! i)) = Some a"
  proof (intro allI impI)
    fix i :: nat
    assume "i < 1"
    then have item: "items_c known_then_unknown ! i = \<lparr> product_id = ''1'', quantity = 1 \<rparr>"
      by (simp add: known_then_unknown_def)
    have "catalog_client (products_db exact_ops) i ''1'' = Response 200 (Some (99999 / 100))
        \<and> fmul exact_ops (99999 / 100) 1 = Some (99999 / 100 * of_int 1)"
      by (simp add: catalog_client_1 fmul_exact_small)
    with item show "\<exists>p a. catalog_client (products_db exact_ops) i
        (product_id (items_c known_then_unknown ! i)) = Response 200 (Some p)
        \<and> fmul exact_ops p (quantity (items_c known_then_unknown ! i)) = Some a"
      by (intro exI [of _ "99999 / 100"] exI [of _ "99999 / 100 * of_int 1"]) simp
  qed
  from create_order_not_found
    [where client = "catalog_client (products_db exact_ops)" and order = known_then_unknown
       and j = 1 and body = None and ops = exact_ops and s = initial_state
       and utcnow = "''2024-01-01T00:00:00''", OF j nf] before
  show ?thesis by (simp add: known_then_unknown_def)
qed

text \<open>
  Claim C2 as stated fails: the second item of \<open>known_then_unknown\<close> names a product
  that the Product Service reports as not found, and the first lookup times out; the
  call answers 503, not 404.
\<close>

theorem create_order_not_found_counterexample:
  "catalog_client (products_db exact_ops) 1 (product_id (items_c known_then_unknown ! 1)) =
     Response 404 None
   \<and> timeout_then_catalog 1 (product_id (items_c known_then_unknown ! 1)) = Response 404 None
   \<and> create_order exact_ops timeout_then_catalog ''2024-01-01T00:00:00''
        initial_state known_then_unknown =
      (initial_state, Inl (HTTPException 503 ''Product Service unavailable: timed out''))"
  by (simp add: known_then_unknown_def timeout_then_catalog_def catalog_client_999
      create_order_def)

text \<open>
  A quantity too large for a float ends the call before the later lookup is made:
  the first line of \<open>huge_then_unknown\<close> raises, and the unknown product of the second
  line is never asked for.
\<close>

lemma overflow_before_not_found:
  "create_order exact_ops (catalog_client (products_db exact_ops)) ''2024-01-01T00:00:00''
     initial_state huge_then_unknown = (initial_state, Inl Unhandled)"
  by (simp add: create_order_def huge_then_unknown_def catalog_client_1 exact_ops_simps
      int_fits_float_def)

section \<open>The states the service reaches\<close>

lemma update_fresh: "k \<notin> fst ` set al \<Longrightarrow> AList.update k v al = al @ [(k, v)]"
  by (induction al) auto

lemma keys_below_counter_initial: "keys_below_counter initial_state"
  by (simp add: keys_below_counter_def initial_state_def)

lemma counter_fresh:
  assumes "keys_below_counter s"
  shows "str (order_counter s) \<notin> fst ` set (orders_db s)"
proof
  assume "str (order_counter s) \<in> fst ` set (orders_db s)"
  with assms obtain n where n: "1 \<le> n" "n < order_counter s" "str (order_counter s) = str n"
    by (auto simp: keys_below_counter_def)
  from assms have "1 \<le> order_counter s" by (simp add: keys_below_counter_def)
  with n have "order_counter s = n" by (intro str_inject) auto
  with n show False by simp
qed

lemma create_order_cases:
  obtains (failed) e where "create_order ops client utcnow s order = (s, Inl e)"
  | (created) ord where
      "create_order ops client utcnow s order =
         (s\<lparr> orders_db := AList.update (str (order_counter s)) ord (orders_db s),
             order_counter := order_counter s + 1 \<rparr>, Inr ord)"
      "id_o ord = str (order_counter s)"
      "\<exists>t. price_items ops client 0 (fzero ops) (items_c order) = Inr t \<and> total_o ord = round2 ops t"
proof (cases "price_items ops client 0 (fzero ops) (items_c order)")
  case (Inl e)
  from create_order_Inl [OF this] show ?thesis by (rule failed)
next
  case (Inr t)
  show ?thesis
    by (rule created [OF create_order_Inr [OF Inr]]) (simp_all add: Inr)
qed

lemma keys_below_counter_create:
  assumes "keys_below_counter s"
  shows "keys_below_counter (fst (create_order ops client utcnow s order))"
proof (cases rule: create_order_cases [of ops client utcnow s order])
  case (failed e)
  with assms show ?thesis by simp
next
  case (created ord)
  have "\<exists>n\<ge>1. n < order_counter s + 1 \<and> k = str n"
    if "k \<in> fst ` set (AList.update (str (order_counter s)) ord (orders_db s))" for k
  proof -
    from that have "k = str (order_counter s) \<or> k \<in> fst ` set (orders_db s)"
      by (simp add: dom_update)
    then show ?thesis
    proof
      assume "k = str (order_counter s)"
      with assms show ?thesis by (auto simp: keys_below_counter_def)
    next
      assume "k \<in> fst ` set (orders_db s)"
      with assms obtain n where "1 \<le> n" "n < order_counter s" "k = str n"
        by (auto simp: keys_below_counter_def)
      then show ?thesis by (intro exI [of _ n]) simp
    qed
  qed
  with assms show ?thesis
    by (simp add: created(1) keys_below_counter_def)
qed

lemma update_order_status_cases:
  obtains (failed) e where "update_order_status s order_id new_status = (s, Inl e)"
  | (updated) ord where
      "map_of (orders_db s) order_id = Some ord"
      "new_status \<in> set valid_statuses"
      "update_order_status s order_id new_status =
         (s\<lparr> orders_db := AList.update order_id (ord\<lparr> status := new_status \<rparr>) (orders_db s) \<rparr>,
          Inr (''Order '' @ order_id @ '' status updated to '' @ new_status))"
  by (cases "map_of (orders_db s) order_id"; cases "new_status \<in> set valid_statuses")
    (auto simp: update_order_status_def)

lemma map_of_Some_key: "map_of al k = Some v \<Longrightarrow> k \<in> fst ` set al"
  by (metis domI dom_map_of_conv_image_fst)

lemma keys_below_counter_update:
  assumes "keys_below_counter s"
  shows "keys_below_counter (fst (update_order_status s order_id new_status))"
proof (cases rule: update_order_status_cases [of s order_id new_status])
  case (failed e)
  with assms show ?thesis by simp
next
  case (updated ord)
  from updated(1) have "order_id \<in> fst ` set (orders_db s)" by (rule map_of_Some_key)
  then have "fst ` set (AList.update order_id (ord\<lparr> status := new_status \<rparr>) (orders_db s)) =
      fst ` set (orders_db s)"
    by (auto simp: dom_update)
  with assms show ?thesis
    by (simp add: updated(3) keys_below_counter_def)
qed

lemma keys_below_counter_handle:
  assumes "keys_below_counter s"
  shows "keys_below_counter (fst (handle ops s r))"
proof (cases r)
  case (CreateOrder order client utcnow)
  have "fst (handle ops s r) = fst (create_order ops client utcnow s order)"
    by (simp add: handle_def CreateOrder split: prod.splits sum.splits)
  with keys_below_counter_create [OF assms] show ?thesis by simp
next
  case (UpdateOrderStatus order_id new_status)
  have "fst (handle ops s r) = fst (update_order_status s order_id new_status)"
    by (simp add: handle_def UpdateOrderStatus split: prod.splits sum.splits)
  with keys_below_counter_update [OF assms] show ?thesis by simp
next
  case (GetOrder order_id)
  with assms show ?thesis by (simp add: handle_def split: sum.splits)
next
  case (GetOrders q)
  with assms show ?thesis by (simp add: handle_def)
next
  case HealthCheck
  with assms show ?thesis by (simp add: handle_def)
qed

lemma fst_serve_Cons:
  "fst (serve ops s (r # rs)) = fst (serve ops (fst (handle ops s r)) rs)"
  by (simp split: prod.splits)

lemma snd_serve_Cons:
  "snd (serve ops s (r # rs)) = snd (handle ops s r) # snd (serve ops (fst (handle ops s r)) rs)"
  by (simp split: prod.splits)

lemma keys_below_counter_serve:
  "keys_below_counter s \<Longrightarrow> keys_below_counter (fst (serve ops s rs))"
proof (induction rs arbitrary: s)
  case Nil
  then show ?case by simp
next
  case (Cons r rs)
  from Cons.IH [OF keys_below_counter_handle [OF Cons.prems, of ops r]]
  show ?case by (simp only: fst_serve_Cons)
qed

lemma keys_below_counter_reached: "keys_below_counter (fst (serve ops initial_state rs))"
  by (rule keys_below_counter_serve [OF keys_below_counter_initial])

section \<open>Failures of order creation\<close>

text \<open>
  Claim C3. A call of \<open>create_order\<close> that fails, for whatever reason, leaves the
  store and the counter as they were. A call that succeeds assigns the new order to
  the key \<open>str\<close> of the counter and adds 1 to the counter, and nothing else; in a
  state the service reaches, that assignment appends one entry to the store.
\<close>

theorem create_order_failure_atomic:
  "(\<forall>e. snd (create_order ops client utcnow s order) = Inl e \<longrightarrow>
        fst (create_order ops client utcnow s order) = s)
   \<and> (\<forall>ord. snd (create_order ops client utcnow s order) = Inr ord \<longrightarrow>
        fst (create_order ops client utcnow s order) =
          s\<lparr> orders_db := AList.update (str (order_counter s)) ord (orders_db s),
             order_counter := order_counter s + 1 \<rparr>)
   \<and> (\<forall>ord. s = fst (serve ops initial_state rs) \<longrightarrow>
        snd (create_order ops client utcnow s order) = Inr ord \<longrightarrow>
        orders_db (fst (create_order ops client utcnow s order)) =
          orders_db s @ [(str (order_counter s), ord)])"
proof (cases rule: create_order_cases [of ops client utcnow s order])
  case (failed e)
  then have "fst (create_order ops client utcnow s order) = s"
    and "\<forall>ord. snd (create_order ops client utcnow s order) \<noteq> Inr ord"
    by simp_all
  then show ?thesis by blast
next
  case (created ord)
  from created(1)
  have result: "snd (create_order ops client utcnow s order) = Inr ord"
    and state: "fst (create_order ops client utcnow s order) =
      s\<lparr> orders_db := AList.update (str (order_counter s)) ord (orders_db s),
         order_counter := order_counter s + 1 \<rparr>"
    by simp_all
  show ?thesis
  proof (intro conjI allI impI)
    fix e
    assume "snd (create_order ops client utcnow s order) = Inl e"
    with result show "fst (create_order ops client utcnow s order) = s" by simp
  next
    fix ord'
    assume "snd (create_order ops client utcnow s order) = Inr ord'"
    with result state
    show "fst (create_order ops client utcnow s order) =
      s\<lparr> orders_db := AList.update (str (order_counter s)) ord' (orders_db s),
         order_counter := order_counter s + 1 \<rparr>"
      by simp
  next
    fix ord'
    assume reached: "s = fst (serve ops initial_state rs)"
      and "snd (create_order ops client utcnow s order) = Inr ord'"
    with result have same: "ord' = ord" by simp
    from reached have "keys_below_counter s"
      by (simp only: keys_below_counter_reached)
    from update_fresh [OF counter_fresh [OF this]] state same
    show "orders_db (fst (create_order ops client utcnow s order)) =
      orders_db s @ [(str (order_counter s), ord')]"
      by simp
  qed
qed

lemma failing_upstream_fails:
  "create_order exact_ops failing_upstream utcnow s two_lines =
     (s, Inl (HTTPException 500 ''Error fetching product 1''))"
  by (simp add: create_order_def failing_upstream_def two_lines_def)

lemma catalog_two_lines:
  "price_items exact_ops (catalog_client (products_db exact_ops)) 0 (fzero exact_ops)
     (items_c two_lines) = Inr (208995 / 100)"
  by (simp add: two_lines_def catalog_client_1 catalog_client_2 exact_ops_simps small_fits)

lemma two_lines_customer: "customer_id_c two_lines = ''alice''"
  by (simp add: two_lines_def)

theorem create_order_failure_atomic_witness:
  "fst (create_order exact_ops failing_upstream ''2024-01-01T00:00:00'' initial_state two_lines) =
     initial_state
   \<and> orders_db (fst (create_order exact_ops (catalog_client (products_db exact_ops))
        ''2024-01-01T00:00:00'' initial_state two_lines)) =
     [(''1'', \<lparr> id_o = ''1'', customer_id = ''alice'', items = items_c two_lines,
               total_o = 208995 / 100, status = ''pending'',
               created_at = ''2024-01-01T00:00:00'' \<rparr>)]"
proof -
  have failure: "snd (create_order exact_ops failing_upstream ''2024-01-01T00:00:00''
      initial_state two_lines) = Inl (HTTPException 500 ''Error fetching product 1'')"
    by (simp add: failing_upstream_fails)
  have reached: "initial_state = fst (serve exact_ops initial_state [])"
    by simp
  have success: "snd (create_order exact_ops (catalog_client (products_db exact_ops))
      ''2024-01-01T00:00:00'' initial_state two_lines) =
      Inr \<lparr> id_o = ''1'', customer_id = ''alice'', items = items_c two_lines,
            total_o = 208995 / 100, status = ''pending'',
            created_at = ''2024-01-01T00:00:00'' \<rparr>"
    using create_order_Inr [OF catalog_two_lines, of "''2024-01-01T00:00:00''" initial_state]
    by (simp add: exact_ops_simps round_half_even_def initial_state_def str_1
        two_lines_customer)
  from create_order_failure_atomic
    [of exact_ops failing_upstream "''2024-01-01T00:00:00''" initial_state two_lines "[]",
      THEN conjunct1, rule_format, OF failure]
  have first: "fst (create_order exact_ops failing_upstream ''2024-01-01T00:00:00''
      initial_state two_lines) = initial_state" .
  from create_order_failure_atomic
    [of exact_ops "catalog_client (products_db exact_ops)" "''2024-01-01T00:00:00''"
      initial_state two_lines "[]", THEN conjunct2, THEN conjunct2, rule_format,
      OF reached success]
  have "orders_db (fst (create_order exact_ops (catalog_client (products_db exact_ops))
        ''2024-01-01T00:00:00'' initial_state two_lines)) =
      orders_db initial_state @
        [(str (order_counter (initial_state :: rat order_state)),
          \<lparr> id_o = ''1'', customer_id = ''alice'', items = items_c two_lines,
            total_o = 208995 / 100, status = ''pending'',
            created_at = ''2024-01-01T00:00:00'' \<rparr>)]" .
  with first show ?thesis
    by (simp add: initial_state_def str_1)
qed

text \<open>
  Claim C4. When the loop reaches item \<open>j\<close>, every item before it being priced, a
  transport failure of the lookup of item \<open>j\<close> ends the call with status 503 and a
  detail that carries the text of the transport error, and a response whose status
  is neither 2xx nor 404 ends it with that same status. The two failures are never
  the same value: their details differ whatever the status.
\<close>

theorem lookup_failure_kinds:
  assumes "j < length (items_c order)"
    and "\<forall>i<j. \<exists>p a. client i (product_id (items_c order ! i)) = Response 200 (Some p)
           \<and> fmul ops p (quantity (items_c order ! i)) = Some a"
  shows "(client j (product_id (items_c order ! j)) = RequestError e \<longrightarrow>
            create_order ops client utcnow s order =
              (s, Inl (HTTPException 503 (''Product Service unavailable: '' @ e))))
       \<and> (client j (product_id (items_c order ! j)) = Response sc body
            \<and> \<not> (200 \<le> sc \<and> sc < 300) \<and> sc \<noteq> 404 \<longrightarrow>
            create_order ops client utcnow s order =
              (s, Inl (HTTPException sc
                        (''Error fetching product '' @ product_id (items_c order ! j)))))
       \<and> HTTPException 503 (''Product Service unavailable: '' @ e') \<noteq>
           HTTPException sc' (''Error fetching product '' @ pid')"
proof -
  from assms(2) have "\<forall>i<j. priced ops client i (items_c order ! i)"
    by (simp add: priced_iff)
  from price_items_first_failure
    [where client = client and j = j and ops = ops and t = "fzero ops", OF assms(1) this]
  obtain t' where reach: "price_items ops client 0 (fzero ops) (items_c order) =
      price_items ops client j t' (drop j (items_c order))"
    by blast
  have transport: "create_order ops client utcnow s order =
      (s, Inl (HTTPException 503 (''Product Service unavailable: '' @ e)))"
    if "client j (product_id (items_c order ! j)) = RequestError e"
  proof -
    from reach that assms(1)
    have "price_items ops client 0 (fzero ops) (items_c order) =
        Inl (HTTPException 503 (''Product Service unavailable: '' @ e))"
      by (simp add: drop_nth_Cons)
    from create_order_Inl [OF this] show ?thesis .
  qed
  have upstream: "create_order ops client utcnow s order =
      (s, Inl (HTTPException sc (''Error fetching product '' @ product_id (items_c order ! j))))"
    if "client j (product_id (items_c order ! j)) = Response sc body"
      and "\<not> (200 \<le> sc \<and> sc < 300)" and "sc \<noteq> 404"
  proof -
    from that(2) have "sc \<noteq> 200" by auto
    with reach that assms(1)
    have "price_items ops client 0 (fzero ops) (items_c order) =
        Inl (HTTPException sc (''Error fetching product '' @ product_id (items_c order ! j)))"
      by (simp add: drop_nth_Cons)
    from create_order_Inl [OF this] show ?thesis .
  qed
  from transport upstream show ?thesis by simp
qed

theorem lookup_failure_kinds_witness:
  "create_order exact_ops catalog_then_timeout ''2024-01-01T00:00:00'' initial_state two_lines =
     (initial_state, Inl (HTTPException 503 ''Product Service unavailable: timed out''))
   \<and> create_order exact_ops failing_upstream ''2024-01-01T00:00:00'' initial_state two_lines =
     (initial_state, Inl (HTTPException 500 ''Error fetching product 1''))"
proof -
  have second: "1 < length (items_c two_lines)" and first: "0 < length (items_c two_lines)"
    by (simp_all add: two_lines_def)
  have priced_first: "\<forall>i<1. \<exists>p a. catalog_then_timeout i (product_id (items_c two_lines ! i)) =
      Response 200 (Some p) \<and> fmul exact_ops p (quantity (items_c two_lines ! i)) = Some a"
  proof (intro allI impI)
    fix i :: nat
    assume "i < 1"
    then have item: "items_c two_lines ! i = \<lparr> product_id = ''1'', quantity = 2 \<rparr>"
      and i: "i = 0"
      by (simp_all add: two_lines_def)
    have "catalog_then_timeout 0 ''1'' = Response 200 (Some (99999 / 100))
        \<and> fmul exact_ops (99999 / 100) 2 = Some (99999 / 100 * of_int 2)"
      by (simp add: catalog_then_timeout_def catalog_client_1 fmul_exact_small)
    with item i show "\<exists>p a. catalog_then_timeout i (product_id (items_c two_lines ! i)) =
        Response 200 (Some p) \<and> fmul exact_ops p (quantity (items_c two_lines ! i)) = Some a"
      by (intro exI [of _ "99999 / 100"] exI [of _ "99999 / 100 * of_int 2"]) simp
  qed
  have none_before: "\<forall>i<0. \<exists>p a. failing_upstream i (product_id (items_c two_lines ! i)) =
      Response 200 (Some p) \<and> fmul exact_ops p (quantity (items_c two_lines ! i)) = Some a"
    by simp
  have timeout: "catalog_then_timeout 1 (product_id (items_c two_lines ! 1)) =
      RequestError ''timed out''"
    by (simp add: catalog_then_timeout_def)
  have status: "failing_upstream 0 (product_id (items_c two_lines ! 0)) = Response 500 None
      \<and> \<not> (200 \<le> (500::nat) \<and> (500::nat) < 300) \<and> (500::nat) \<noteq> 404"
    by (simp add: failing_upstream_def)
  from lookup_failure_kinds
    [where client = catalog_then_timeout and order = two_lines and j = 1
       and e = "''timed out''" and ops = exact_ops and s = initial_state
       and utcnow = "''2024-01-01T00:00:00''", OF second priced_first,
      THEN conjunct1, rule_format, OF timeout]
  have transport: "create_order exact_ops catalog_then_timeout ''2024-01-01T00:00:00''
      initial_state two_lines =
      (initial_state, Inl (HTTPException 503 ''Product Service unavailable: timed out''))"
    by simp
  from lookup_failure_kinds
    [where client = failing_upstream and order = two_lines and j = 0
       and sc = 500 and body = None and ops = exact_ops and s = initial_state
       and utcnow = "''2024-01-01T00:00:00''", OF first none_before,
      THEN conjunct2, THEN conjunct1, rule_format, OF status]
  have "create_order exact_ops failing_upstream ''2024-01-01T00:00:00''
      initial_state two_lines =
      (initial_state, Inl (HTTPException 500 ''Error fetching product 1''))"
    by (simp add: two_lines_def)
  with transport show ?thesis by simp
qed

text \<open>
  Claim C10. An order creation with no items succeeds whatever the client would
  answer, so without consulting it; the order created has the total \<^verbatim>\<open>round(0.0, 2)\<close>,
  which is \<^verbatim>\<open>0.0\<close>, the status "pending" and \<open>str\<close> of the counter as its identifier,
  and it is stored under that identifier.
\<close>

theorem create_order_empty:
  assumes "items_c order = []"
    and "round2 ops (fzero ops) = fzero ops"
  shows "\<exists>s'. create_order ops client utcnow s order =
           (s', Inr \<lparr> id_o = str (order_counter s), customer_id = customer_id_c order,
                      items = [], total_o = fzero ops, status = ''pending'',
                      created_at = utcnow \<rparr>)
         \<and> get_order s' (str (order_counter s)) =
             Inr \<lparr> id_o = str (order_counter s), customer_id = customer_id_c order,
                   items = [], total_o = fzero ops, status = ''pending'',
                   created_at = utcnow \<rparr>
         \<and> order_counter s' = order_counter s + 1"
proof -
  from assms(1) have "price_items ops client 0 (fzero ops) (items_c order) = Inr (fzero ops)"
    by simp
  from create_order_Inr [OF this] assms show ?thesis
    by (simp add: get_order_def update_conv')
qed

theorem create_order_empty_witness:
  "\<exists>s'. create_order exact_ops failing_upstream ''2024-01-01T00:00:00'' initial_state no_lines =
          (s', Inr \<lparr> id_o = ''1'', customer_id = ''alice'', items = [], total_o = 0,
                     status = ''pending'', created_at = ''2024-01-01T00:00:00'' \<rparr>)
        \<and> order_counter s' = 2"
proof -
  have empty: "items_c no_lines = []"
    by (simp add: no_lines_def)
  have zero: "round2 exact_ops (fzero exact_ops) = fzero exact_ops"
    by (simp add: exact_ops_simps round_half_even_def)
  from create_order_empty
    [where order = no_lines and ops = exact_ops and client = failing_upstream
       and utcnow = "''2024-01-01T00:00:00''" and s = initial_state, OF empty zero]
  show ?thesis
    by (auto simp add: initial_state_def str_1 no_lines_def exact_ops_simps)
qed

section \<open>Order identifiers\<close>

lemma handle_counter:
  "(\<exists>ord. snd (handle ops s r) = Created ord \<and> id_o ord = str (order_counter s)
        \<and> order_counter (fst (handle ops s r)) = order_counter s + 1)
   \<or> ((\<forall>ord. snd (handle ops s r) \<noteq> Created ord)
        \<and> order_counter (fst (handle ops s r)) = order_counter s)"
proof (cases r)
  case (CreateOrder order client utcnow)
  show ?thesis
  proof (cases rule: create_order_cases [of ops client utcnow s order])
    case (failed e)
    then show ?thesis by (simp add: handle_def CreateOrder)
  next
    case (created ord)
    then show ?thesis by (simp add: handle_def CreateOrder)
  qed
next
  case (UpdateOrderStatus order_id new_status)
  show ?thesis
  proof (cases rule: update_order_status_cases [of s order_id new_status])
    case (failed e)
    then show ?thesis by (simp add: handle_def UpdateOrderStatus)
  next
    case (updated ord)
    then show ?thesis by (simp add: handle_def UpdateOrderStatus)
  qed
next
  case (GetOrder order_id)
  then show ?thesis by (simp add: handle_def split: sum.splits)
next
  case (GetOrders q)
  then show ?thesis by (simp add: handle_def)
next
  case HealthCheck
  then show ?thesis by (simp add: handle_def)
qed

lemma created_ids_other: "\<forall>ord. a \<noteq> Created ord \<Longrightarrow> created_ids (a # as) = created_ids as"
  by (cases a) simp_all

lemma map_upt_shift: "map f [0..<Suc m] = f 0 # map (\<lambda>n. f (Suc n)) [0..<m]"
proof -
  have "[0..<Suc m] = 0 # map Suc [0..<m]"
    by (simp add: upt_conv_Cons map_Suc_upt del: upt_Suc)
  then show ?thesis by (simp add: comp_def del: upt_Suc)
qed

lemma served_ids:
  "created_ids (snd (serve ops s rs)) =
     map (\<lambda>n. str (order_counter s + int n)) [0..<length (created_ids (snd (serve ops s rs)))]
   \<and> order_counter (fst (serve ops s rs)) =
       order_counter s + int (length (created_ids (snd (serve ops s rs))))"
proof (induction rs arbitrary: s)
  case Nil
  then show ?case by simp
next
  case (Cons r rs)
  let ?s' = "fst (handle ops s r)"
  let ?ids = "created_ids (snd (serve ops ?s' rs))"
  note IH = Cons.IH [of ?s']
  from handle_counter [of ops s r] show ?case
  proof
    assume "\<exists>ord. snd (handle ops s r) = Created ord \<and> id_o ord = str (order_counter s)
        \<and> order_counter ?s' = order_counter s + 1"
    then obtain ord where made: "snd (handle ops s r) = Created ord"
      "id_o ord = str (order_counter s)" "order_counter ?s' = order_counter s + 1"
      by blast
    have ids: "created_ids (snd (serve ops s (r # rs))) = str (order_counter s) # ?ids"
      by (simp add: snd_serve_Cons made del: serve.simps)
    have shift: "(\<lambda>n. str (order_counter ?s' + int n)) =
        (\<lambda>n. str (order_counter s + int (Suc n)))"
      using made(3) by (simp add: fun_eq_iff ac_simps)
    from IH have "?ids = map (\<lambda>n. str (order_counter ?s' + int n)) [0..<length ?ids]"
      by (rule conjunct1)
    then have "?ids = map (\<lambda>n. str (order_counter s + int (Suc n))) [0..<length ?ids]"
      by (simp only: shift)
    then have "str (order_counter s) # ?ids =
        map (\<lambda>n. str (order_counter s + int n)) [0..<Suc (length ?ids)]"
      by (simp only: map_upt_shift [of "\<lambda>n. str (order_counter s + int n)"]) simp
    with ids IH made(3) show ?thesis
      by (simp add: fst_serve_Cons del: upt_Suc serve.simps)
  next
    assume "(\<forall>ord. snd (handle ops s r) \<noteq> Created ord) \<and> order_counter ?s' = order_counter s"
    then have other: "\<forall>ord. snd (handle ops s r) \<noteq> Created ord"
      and same: "order_counter ?s' = order_counter s"
      by simp_all
    have "created_ids (snd (serve ops s (r # rs))) = ?ids"
      by (simp add: snd_serve_Cons created_ids_other [OF other] del: serve.simps)
    with IH same show ?thesis
      by (simp add: fst_serve_Cons del: serve.simps)
  qed
qed

lemma distinct_str_from:
  "1 \<le> c \<Longrightarrow> distinct (map (\<lambda>n. str (c + int n)) [0..<m])"
proof -
  assume c: "1 \<le> c"
  have "x = y" if "str (c + int x) = str (c + int y)" for x y
  proof -
    from c have "0 \<le> c + int x" and "0 \<le> c + int y" by simp_all
    from str_inject [OF this that] show ?thesis by simp
  qed
  then show ?thesis
    by (auto simp: distinct_map inj_on_def)
qed

text \<open>
  Claim C5. Over any sequence of requests served from the start of the process, the
  identifiers of the orders created are \<open>str 1\<close>, \<open>str 2\<close>, ... in the order of
  creation, \<open>str 1\<close> being "1", and no identifier is given twice.
\<close>

theorem order_ids_sequential:
  "created_ids (snd (serve ops initial_state rs)) =
     map (\<lambda>n. str (int n)) [1..<Suc (length (created_ids (snd (serve ops initial_state rs))))]
   \<and> distinct (created_ids (snd (serve ops initial_state rs)))
   \<and> str 1 = ''1''"
proof -
  let ?ids = "created_ids (snd (serve ops (initial_state :: 'a order_state) rs))"
  from served_ids [of ops initial_state rs]
  have ids: "?ids = map (\<lambda>n. str (1 + int n)) [0..<length ?ids]"
    by (simp add: initial_state_def)
  have "map (\<lambda>n. str (1 + int n)) [0..<length ?ids] =
      map (\<lambda>n. str (int n)) (map Suc [0..<length ?ids])"
    by (simp add: comp_def add.commute)
  also have "\<dots> = map (\<lambda>n. str (int n)) [1..<Suc (length ?ids)]"
    by (simp only: map_Suc_upt One_nat_def)
  finally have seq: "?ids = map (\<lambda>n. str (int n)) [1..<Suc (length ?ids)]"
    using ids by simp
  from distinct_str_from [of 1 "length ?ids"] ids have "distinct ?ids"
    by simp
  with seq str_1 show ?thesis by simp
qed

section \<open>Status updates\<close>

text \<open>
  Claim C6. For a stored order, a status update with a value outside
  \{pending, confirmed, shipped, delivered, canceled\} answers 400 and leaves the
  state, hence the order's status, as it was; with a value inside the set it
  succeeds and the stored order then has that status.
\<close>

theorem update_order_status_validates:
  assumes "map_of (orders_db s) order_id = Some ord"
  shows "(new_status \<notin> {''pending'', ''confirmed'', ''shipped'', ''delivered'', ''canceled''} \<longrightarrow>
            (\<exists>detail. update_order_status s order_id new_status =
               (s, Inl (HTTPException 400 detail))))
       \<and> (new_status \<in> {''pending'', ''confirmed'', ''shipped'', ''delivered'', ''canceled''} \<longrightarrow>
            (\<exists>s' m. update_order_status s order_id new_status = (s', Inr m)
               \<and> map_of (orders_db s') order_id = Some (ord\<lparr> status := new_status \<rparr>)))"
proof -
  have valid: "set valid_statuses =
      {''pending'', ''confirmed'', ''shipped'', ''delivered'', ''canceled''}"
    by (simp add: valid_statuses_def)
  show ?thesis
    unfolding valid [symmetric] using assms
    by (simp add: update_order_status_def update_conv')
qed

lemma one_order_lookup: "map_of (orders_db one_order_state) ''1'' = Some first_order"
  by (simp add: one_order_state_def)

theorem update_order_status_validates_witness:
  "(\<exists>detail. update_order_status one_order_state ''1'' ''Pending'' =
      (one_order_state, Inl (HTTPException 400 detail)))
   \<and> (\<exists>s' m. update_order_status one_order_state ''1'' ''shipped'' = (s', Inr m)
        \<and> map_of (orders_db s') ''1'' = Some (first_order\<lparr> status := ''shipped'' \<rparr>))"
proof -
  have outside: "''Pending'' \<notin> {''pending'', ''confirmed'', ''shipped'', ''delivered'', ''canceled''}"
    by simp
  have inside: "''shipped'' \<in> {''pending'', ''confirmed'', ''shipped'', ''delivered'', ''canceled''}"
    by simp
  from update_order_status_validates [OF one_order_lookup, of "''Pending''",
      THEN conjunct1, rule_format, OF outside]
    update_order_status_validates [OF one_order_lookup, of "''shipped''",
      THEN conjunct2, rule_format, OF inside]
  show ?thesis by (rule conjI)
qed

text \<open>
  Claim C9. A status update that succeeds changes, in the order it names, the status
  and no other field, leaves every other order and the keys of the store as they
  were, and leaves the counter; and in a state the service reaches, a request that is
  not a status update leaves every stored order as it was.
\<close>

theorem status_update_frame:
  "(update_order_status (s :: 'f order_state) order_id new_status = (s', Inr m) \<longrightarrow>
      (\<exists>ord ord'. map_of (orders_db s) order_id = Some ord
         \<and> map_of (orders_db s') order_id = Some ord'
         \<and> id_o ord' = id_o ord \<and> customer_id ord' = customer_id ord
         \<and> items ord' = items ord \<and> total_o ord' = total_o ord
         \<and> created_at ord' = created_at ord \<and> status ord' = new_status)
      \<and> (\<forall>k. k \<noteq> order_id \<longrightarrow> map_of (orders_db s') k = map_of (orders_db s) k)
      \<and> map fst (orders_db s') = map fst (orders_db s)
      \<and> order_counter s' = order_counter s)
   \<and> ((\<forall>oid st. r \<noteq> UpdateOrderStatus oid st) \<longrightarrow>
        (\<forall>k ord. map_of (orders_db (fst (serve (ops :: 'f float_ops) initial_state rs))) k
              = Some ord \<longrightarrow>
           map_of (orders_db (fst (handle ops (fst (serve ops initial_state rs)) r))) k = Some ord))"
proof (intro conjI impI allI)
  assume ok: "update_order_status s order_id new_status = (s', Inr m)"
  then obtain ord where ord: "map_of (orders_db s) order_id = Some ord"
    and s': "s' = s\<lparr> orders_db := AList.update order_id (ord\<lparr> status := new_status \<rparr>) (orders_db s) \<rparr>"
    by (cases rule: update_order_status_cases [of s order_id new_status]) auto
  from ord s' show "\<exists>ord ord'. map_of (orders_db s) order_id = Some ord
         \<and> map_of (orders_db s') order_id = Some ord'
         \<and> id_o ord' = id_o ord \<and> customer_id ord' = customer_id ord
         \<and> items ord' = items ord \<and> total_o ord' = total_o ord
         \<and> created_at ord' = created_at ord \<and> status ord' = new_status"
    by (simp add: update_conv')
  from s' show "order_counter s' = order_counter s" by simp
  from ord have "order_id \<in> set (map fst (orders_db s))"
    using map_of_Some_key [of "orders_db s" order_id ord] by simp
  with s' show "map fst (orders_db s') = map fst (orders_db s)"
    by (simp add: update_keys)
  fix k
  assume "k \<noteq> order_id"
  with s' show "map_of (orders_db s') k = map_of (orders_db s) k"
    by (simp add: update_conv')
next
  fix k ord
  let ?s = "fst (serve ops (initial_state :: 'f order_state) rs)"
  assume other: "\<forall>oid st. r \<noteq> UpdateOrderStatus oid st"
    and stored: "map_of (orders_db ?s) k = Some ord"
  show "map_of (orders_db (fst (handle ops ?s r))) k = Some ord"
  proof (cases r)
    case (CreateOrder order client utcnow)
    have handled: "fst (handle ops ?s r) = fst (create_order ops client utcnow ?s order)"
      by (simp add: handle_def CreateOrder split: prod.splits sum.splits)
    show ?thesis
    proof (cases rule: create_order_cases [of ops client utcnow ?s order])
      case (failed e)
      with handled stored show ?thesis by simp
    next
      case (created new)
      from stored have "k \<in> fst ` set (orders_db ?s)" by (rule map_of_Some_key)
      with counter_fresh [OF keys_below_counter_reached, of ops rs]
      have "k \<noteq> str (order_counter ?s)" by blast
      with handled created(1) stored show ?thesis
        by (simp add: update_conv')
    qed
  next
    case (UpdateOrderStatus oid st)
    with other show ?thesis by simp
  next
    case (GetOrder oid)
    with stored show ?thesis by (simp add: handle_def split: sum.splits)
  next
    case (GetOrders q)
    with stored show ?thesis by (simp add: handle_def)
  next
    case HealthCheck
    with stored show ?thesis by (simp add: handle_def)
  qed
qed

lemma update_shipped:
  "update_order_status one_order_state ''1'' ''shipped'' =
     (one_order_state\<lparr> orders_db := [(''1'', first_order\<lparr> status := ''shipped'' \<rparr>)] \<rparr>,
      Inr ''Order 1 status updated to shipped'')"
  by (simp add: update_order_status_def one_order_state_def valid_statuses_def)

lemma serve_first_order:
  "fst (serve exact_ops initial_state
     [CreateOrder two_lines (catalog_client (products_db exact_ops)) ''2024-01-01T00:00:00'']) =
   one_order_state"
  using create_order_Inr [OF catalog_two_lines, of "''2024-01-01T00:00:00''" initial_state]
  by (simp add: handle_def exact_ops_simps round_half_even_def initial_state_def str_1
      two_lines_customer one_order_state_def first_order_def)

theorem status_update_frame_witness:
  "order_counter (one_order_state\<lparr> orders_db := [(''1'', first_order\<lparr> status := ''shipped'' \<rparr>)] \<rparr>) =
     order_counter one_order_state
   \<and> map_of (orders_db (fst (handle exact_ops one_order_state second_time))) ''1'' =
       Some first_order"
proof -
  have other: "\<forall>oid st. second_time \<noteq> UpdateOrderStatus oid st"
    by (simp add: second_time_def)
  have stored: "map_of (orders_db (fst (serve exact_ops initial_state
      [CreateOrder two_lines (catalog_client (products_db exact_ops)) ''2024-01-01T00:00:00''])))
      ''1'' = Some first_order"
    by (simp only: serve_first_order one_order_lookup)
  note frame = status_update_frame
    [where s = one_order_state and order_id = "''1''" and new_status = "''shipped''"
       and s' = "one_order_state\<lparr> orders_db := [(''1'', first_order\<lparr> status := ''shipped'' \<rparr>)] \<rparr>"
       and m = "''Order 1 status updated to shipped''" and r = second_time
       and ops = exact_ops
       and rs = "[CreateOrder two_lines (catalog_client (products_db exact_ops))
                   ''2024-01-01T00:00:00'']"]
  from frame [THEN conjunct1, rule_format, OF update_shipped]
  have first: "order_counter
      (one_order_state\<lparr> orders_db := [(''1'', first_order\<lparr> status := ''shipped'' \<rparr>)] \<rparr>) =
      order_counter one_order_state"
    by simp
  from frame [THEN conjunct2, rule_format, OF other [rule_format] stored]
  have "map_of (orders_db (fst (handle exact_ops one_order_state second_time))) ''1'' =
      Some first_order"
    by (simp only: serve_first_order)
  with first show ?thesis by (rule conjI)
qed

section \<open>Listings\<close>

text \<open>
  Claim C7, amended. Listing products with a non-empty category filter returns
  exactly the products whose category equals the filter, and listing orders with a
  non-empty customer filter returns exactly the orders of that customer, both in the
  order of the store; when the filter is omitted, or is the empty string, the listing
  returns all stored records.
\<close>

theorem listing_filters:
  "(c \<noteq> [] \<longrightarrow> get_products db (Some c) = with_category db c
                \<and> get_orders s (Some c) = of_customer s c)
   \<and> get_products db None = map snd db
   \<and> get_products db (Some []) = map snd db
   \<and> get_orders s None = map snd (orders_db s)
   \<and> get_orders s (Some []) = map snd (orders_db s)"
  by (simp add: get_products_def get_orders_def with_category_def of_customer_def)

theorem listing_filters_witness:
  "get_products (products_db exact_ops) (Some ''Electronics'') = map snd (products_db exact_ops)
   \<and> get_products (products_db exact_ops) (Some ''Toys'') = []
   \<and> get_orders one_order_state (Some ''alice'') = [first_order]
   \<and> get_orders one_order_state (Some ''bob'') = []"
proof -
  have a: "''Electronics'' \<noteq> []" and b: "''Toys'' \<noteq> []"
    and c: "''alice'' \<noteq> []" and d: "''bob'' \<noteq> []"
    by simp_all
  have cats: "with_category (products_db exact_ops) ''Electronics'' = map snd (products_db exact_ops)"
    "with_category (products_db exact_ops) ''Toys'' = []"
    by (simp_all add: with_category_def products_db_def)
  have custs: "of_customer one_order_state ''alice'' = [first_order]"
    "of_customer one_order_state ''bob'' = []"
    by (simp_all add: of_customer_def one_order_state_def first_order_def)
  from listing_filters [of "''Electronics''" "products_db exact_ops" one_order_state,
      THEN conjunct1, rule_format, OF a]
    listing_filters [of "''Toys''" "products_db exact_ops" one_order_state,
      THEN conjunct1, rule_format, OF b]
    listing_filters [of "''alice''" "products_db exact_ops" one_order_state,
      THEN conjunct1, rule_format, OF c]
    listing_filters [of "''bob''" "products_db exact_ops" one_order_state,
      THEN conjunct1, rule_format, OF d]
  show ?thesis by (simp add: cats custs)
qed

text \<open>
  Claim C7 as stated fails at the empty filter: no product of the initial catalog has
  the empty category, yet listing with the filter \<^verbatim>\<open>""\<close> returns the three products.
\<close>

theorem listing_filters_counterexample:
  "with_category (products_db exact_ops) [] = []
   \<and> length (get_products (products_db exact_ops) (Some [])) = 3
   \<and> get_products (products_db exact_ops) (Some []) \<noteq> with_category (products_db exact_ops) []"
  by (simp add: get_products_def with_category_def products_db_def)

section \<open>The sign of totals\<close>

lemma price_items_nonneg:
  assumes "sign_laws ops nonneg"
  shows "nonneg t \<Longrightarrow> list_all (\<lambda>it. 0 \<le> quantity it) its \<Longrightarrow>
    prices_nonneg nonneg client k its \<Longrightarrow> price_items ops client k t its = Inr t' \<Longrightarrow>
    nonneg t'"
proof (induction its arbitrary: k t)
  case Nil
  then show ?case by simp
next
  case (Cons it its)
  from Cons.prems(4) obtain p a where
    found: "client k (product_id it) = Response 200 (Some p)" and
    amount: "fmul ops p (quantity it) = Some a" and
    rest: "price_items ops client (Suc k) (fadd ops t a) its = Inr t'"
    by (auto split: get_result.splits if_splits option.splits)
  from Cons.prems(3) found have "nonneg p" by simp
  moreover from Cons.prems(2) have "0 \<le> quantity it" by simp
  ultimately have "nonneg a"
    using assms amount unfolding sign_laws_def by blast
  with Cons.prems(1) assms have acc: "nonneg (fadd ops t a)"
    by (simp add: sign_laws_def)
  from Cons.prems(2) have qs: "list_all (\<lambda>it. 0 \<le> quantity it) its" by simp
  from Cons.prems(3) have ps: "prices_nonneg nonneg client (Suc k) its" by simp
  from Cons.IH [OF acc qs ps rest] show ?case .
qed

lemma update_list_all:
  "list_all P (map snd al) \<Longrightarrow> P v \<Longrightarrow> list_all P (map snd (AList.update k v al))"
  by (induction al) auto

lemma stored_totals_assign:
  "list_all nonneg (stored_totals s) \<Longrightarrow> nonneg (total_o ord) \<Longrightarrow>
   list_all nonneg (stored_totals (s\<lparr> orders_db := AList.update k ord (orders_db s) \<rparr>))"
  using update_list_all [of "\<lambda>ord. nonneg (total_o ord)" "orders_db s" ord k]
  by (simp add: stored_totals_def list_all_iff)

lemma stored_total_nonneg:
  "list_all nonneg (stored_totals s) \<Longrightarrow> map_of (orders_db s) k = Some ord \<Longrightarrow>
   nonneg (total_o ord)"
  by (auto simp: stored_totals_def list_all_iff dest!: map_of_SomeD)

lemma stored_totals_create:
  assumes "sign_laws ops nonneg"
    and "list_all nonneg (stored_totals s)"
    and "list_all (\<lambda>it. 0 \<le> quantity it) (items_c order)"
    and "prices_nonneg nonneg client 0 (items_c order)"
  shows "list_all nonneg (stored_totals (fst (create_order ops client utcnow s order)))"
proof (cases rule: create_order_cases [of ops client utcnow s order])
  case (failed e)
  with assms(2) show ?thesis by simp
next
  case (created ord)
  from created(3) obtain t where
    t: "price_items ops client 0 (fzero ops) (items_c order) = Inr t"
    and tot: "total_o ord = round2 ops t"
    by blast
  from assms(1) have "nonneg (fzero ops)" by (simp add: sign_laws_def)
  from price_items_nonneg [OF assms(1) this assms(3) assms(4) t] assms(1) tot
  have "nonneg (total_o ord)" by (simp add: sign_laws_def)
  from stored_totals_assign [OF assms(2) this, of "str (order_counter s)"]
  show ?thesis
    by (simp add: created(1) stored_totals_def)
qed

lemma stored_totals_status:
  assumes "list_all nonneg (stored_totals s)"
  shows "list_all nonneg (stored_totals (fst (update_order_status s order_id new_status)))"
proof (cases rule: update_order_status_cases [of s order_id new_status])
  case (failed e)
  with assms show ?thesis by simp
next
  case (updated ord)
  from stored_total_nonneg [OF assms updated(1)]
  have "nonneg (total_o (ord\<lparr> status := new_status \<rparr>))" by simp
  from stored_totals_assign [OF assms this, of order_id] show ?thesis
    by (simp add: updated(3))
qed

lemma stored_totals_handle:
  assumes "sign_laws ops nonneg"
    and "list_all nonneg (stored_totals s)"
    and "nonneg_request nonneg r"
  shows "list_all nonneg (stored_totals (fst (handle ops s r)))"
proof (cases r)
  case (CreateOrder order client utcnow)
  have "fst (handle ops s r) = fst (create_order ops client utcnow s order)"
    by (simp add: handle_def CreateOrder split: prod.splits sum.splits)
  with stored_totals_create [OF assms(1) assms(2), of order client utcnow] assms(3)
  show ?thesis by (simp add: CreateOrder)
next
  case (UpdateOrderStatus order_id new_status)
  have "fst (handle ops s r) = fst (update_order_status s order_id new_status)"
    by (simp add: handle_def UpdateOrderStatus split: prod.splits sum.splits)
  with stored_totals_status [OF assms(2)] show ?thesis by simp
next
  case (GetOrder order_id)
  with assms(2) show ?thesis by (simp add: handle_def split: sum.splits)
next
  case (GetOrders q)
  with assms(2) show ?thesis by (simp add: handle_def)
next
  case HealthCheck
  with assms(2) show ?thesis by (simp add: handle_def)
qed

lemma stored_totals_serve:
  assumes "sign_laws ops nonneg"
  shows "list_all nonneg (stored_totals s) \<Longrightarrow> list_all (nonneg_request nonneg) rs \<Longrightarrow>
    list_all nonneg (stored_totals (fst (serve ops s rs)))"
proof (induction rs arbitrary: s)
  case Nil
  then show ?case by simp
next
  case (Cons r rs)
  from Cons.prems(2) have r: "nonneg_request nonneg r"
    and rs: "list_all (nonneg_request nonneg) rs"
    by simp_all
  from Cons.IH [OF stored_totals_handle [OF assms Cons.prems(1) r] rs]
  show ?case by (simp only: fst_serve_Cons)
qed

text \<open>
  Claim C8, amended. When the arithmetic respects the sign, every order in the store
  has a non-negative total after any sequence of requests in which every quantity
  supplied is non-negative and every price the Product Service reports is
  non-negative.
\<close>

theorem totals_nonneg:
  assumes "sign_laws ops nonneg"
    and "list_all (nonneg_request nonneg) rs"
  shows "list_all nonneg (stored_totals (fst (serve ops initial_state rs)))"
proof -
  have "list_all nonneg (stored_totals (initial_state :: 'a order_state))"
    by (simp add: stored_totals_def initial_state_def)
  from stored_totals_serve [OF assms(1) this assms(2)] show ?thesis .
qed

lemma round_half_even_nonneg: "0 \<le> y \<Longrightarrow> 0 \<le> round_half_even y"
  by (simp add: round_half_even_def Let_def)

lemma sign_laws_exact: "sign_laws exact_ops nonneg_rat"
  by (simp add: sign_laws_def nonneg_rat_def exact_ops_simps round_half_even_nonneg)

theorem totals_nonneg_witness:
  "list_all nonneg_rat (stored_totals one_order_state) \<and> stored_totals one_order_state = [208995 / 100]"
proof -
  have requests: "list_all (nonneg_request nonneg_rat) [first_time]"
    by (simp add: first_time_def two_lines_def catalog_client_1 catalog_client_2 nonneg_rat_def)
  have state: "fst (serve exact_ops initial_state [first_time]) = one_order_state"
    using serve_first_order by (simp only: first_time_def)
  from totals_nonneg [OF sign_laws_exact requests]
  have "list_all nonneg_rat (stored_totals one_order_state)"
    by (simp only: state)
  then show ?thesis
    by (simp add: stored_totals_def one_order_state_def first_order_def)
qed

text \<open>
  Claim C8 as stated fails: ordering the quantity \<open>- 1\<close> of the product "2" of the
  initial catalog, whose price is 29.99, stores an order whose total is negative.
\<close>

theorem totals_nonneg_counterexample:
  "stored_totals (fst (serve exact_ops initial_state [negative_time])) = [- 2999 / 100]
   \<and> \<not> list_all nonneg_rat (stored_totals (fst (serve exact_ops initial_state [negative_time])))"
proof -
  have "price_items exact_ops (catalog_client (products_db exact_ops)) 0 (fzero exact_ops)
      (items_c negative_quantity) = Inr (- 2999 / 100)"
    by (simp add: negative_quantity_def catalog_client_2 exact_ops_simps small_fits)
  from create_order_Inr [OF this, of "''2024-01-01T00:00:00''" initial_state]
  have "stored_totals (fst (serve exact_ops initial_state [negative_time])) = [- 2999 / 100]"
    by (simp add: negative_time_def handle_def stored_totals_def initial_state_def
        exact_ops_simps round_half_even_def)
  then show ?thesis by (simp add: nonneg_rat_def)
qed

section \<open>The example of the specification\<close>

text \<open>
  Creating the product Widget at 9.99 on an empty catalog gives it the identifier "1";
  ordering three of it creates the order "1" with total 29.97 and status "pending";
  a second order that names the product "999" is answered 404 and the store still
  holds the one order.
\<close>

lemma widget_created:
  "create_product [] widget =
     ([(''1'', \<lparr> id_p = ''1'', name = ''Widget'', price = 999 / 100, category = ''Misc'' \<rparr>)],
      \<lparr> id_p = ''1'', name = ''Widget'', price = 999 / 100, category = ''Misc'' \<rparr>)"
  by (simp add: create_product_def widget_def str_1 Let_def)

lemma widget_client:
  "catalog_client widget_catalog k ''1'' = Response 200 (Some (999 / 100))"
  "catalog_client widget_catalog k ''999'' = Response 404 None"
  by (simp_all add: widget_catalog_def widget_created catalog_client_def get_product_def)

lemma specification_example:
  "serve exact_ops initial_state
     [CreateOrder three_widgets (catalog_client widget_catalog) ''2024-01-01T00:00:00'',
      CreateOrder unknown_product (catalog_client widget_catalog) ''2024-01-02T00:00:00'',
      GetOrders None] =
   (\<lparr> orders_db =
        [(''1'', \<lparr> id_o = ''1'', customer_id = ''alice'', items = items_c three_widgets,
                   total_o = 2997 / 100, status = ''pending'',
                   created_at = ''2024-01-01T00:00:00'' \<rparr>)],
      order_counter = 2 \<rparr>,
    [Created \<lparr> id_o = ''1'', customer_id = ''alice'', items = items_c three_widgets,
               total_o = 2997 / 100, status = ''pending'',
               created_at = ''2024-01-01T00:00:00'' \<rparr>,
     Failed (HTTPException 404 ''Product 999 not found''),
     Orders [\<lparr> id_o = ''1'', customer_id = ''alice'', items = items_c three_widgets,
               total_o = 2997 / 100, status = ''pending'',
               created_at = ''2024-01-01T00:00:00'' \<rparr>]])"
  by (simp add: handle_def create_order_def get_orders_def three_widgets_def unknown_product_def
      widget_client exact_ops_simps small_fits round_half_even_def initial_state_def str_1
      Let_def)

end
